theory Spec2Isabelle
  imports Main
begin

section \<open>JavaScript values and the string and array operations the client uses\<close>

text \<open>
  The values that reach the client from its callers and from the Sync channel.
  Objects with methods of their own are outside this type.
\<close>

datatype js_value =
    JUndefined
  | JNull
  | JBool bool
  | JNum int
  | JStr string
  | JArr "js_value list"

text \<open>The test of \<^verbatim>\<open>if (v)\<close>.\<close>

fun truthy :: "js_value \<Rightarrow> bool" where
  "truthy JUndefined = False"
| "truthy JNull = False"
| "truthy (JBool b) = b"
| "truthy (JNum n) = (n \<noteq> 0)"
| "truthy (JStr s) = (s \<noteq> [])"
| "truthy (JArr xs) = True"

text \<open>Only a string has a \<^verbatim>\<open>split\<close> method.\<close>

fun is_string :: "js_value \<Rightarrow> bool" where
  "is_string (JStr s) = True"
| "is_string v = False"

text \<open>A promise that was awaited: it resolved with a value or it rejected.\<close>

datatype 'a outcome = Resolved 'a | Rejected

datatype error = TypeError string

text \<open>\<^verbatim>\<open>s.split(",")\<close>: the pieces between the commas; the empty string gives one empty piece.\<close>

fun split :: "char \<Rightarrow> string \<Rightarrow> string list" where
  "split sep [] = [[]]"
| "split sep (c # cs) =
     (if c = sep then [] # split sep cs
      else (case split sep cs of [] \<Rightarrow> [[c]] | w # ws \<Rightarrow> (c # w) # ws))"

text \<open>White space of \<^verbatim>\<open>trim\<close>, within ASCII: tab, line feed, vertical tab, form feed,
  carriage return and space.\<close>

definition is_space :: "char \<Rightarrow> bool" where
  "is_space c =
     (c = CHR 0x09 \<or> c = CHR 0x0A \<or> c = CHR 0x0B \<or> c = CHR 0x0C \<or> c = CHR 0x0D \<or> c = CHR '' '')"

definition trim :: "string \<Rightarrow> string" where
  "trim s = rev (dropWhile is_space (rev (dropWhile is_space s)))"

text \<open>\<^verbatim>\<open>s.includes(sub)\<close> on strings: \<^verbatim>\<open>sub\<close> occurs in \<^verbatim>\<open>s\<close> as a substring.\<close>

fun starts_with :: "string \<Rightarrow> string \<Rightarrow> bool" where
  "starts_with s [] = True"
| "starts_with [] (p # ps) = False"
| "starts_with (c # cs) (p # ps) = (c = p \<and> starts_with cs ps)"

fun str_includes :: "string \<Rightarrow> string \<Rightarrow> bool" where
  "str_includes [] sub = (sub = [])"
| "str_includes (c # cs) sub = (starts_with (c # cs) sub \<or> str_includes cs sub)"

text \<open>\<^verbatim>\<open>xs[0]\<close>: the first element, \<^verbatim>\<open>undefined\<close> (None) on an empty array.\<close>

definition front :: "'a list \<Rightarrow> 'a option" where
  "front xs = (case xs of [] \<Rightarrow> None | x # r \<Rightarrow> Some x)"

text \<open>\<^verbatim>\<open>xs.shift()\<close>: removes the first element; an empty array stays empty.\<close>

definition shift :: "'a list \<Rightarrow> 'a list" where
  "shift xs = (case xs of [] \<Rightarrow> [] | x # r \<Rightarrow> r)"

text \<open>\<^verbatim>\<open>xs.unshift(x)\<close>: inserts at the front.\<close>

definition unshift :: "'a \<Rightarrow> 'a list \<Rightarrow> 'a list" where
  "unshift x xs = x # xs"

text \<open>
  The \<^verbatim>\<open>Required\<close> value of a notification. The client calls \<^verbatim>\<open>includes\<close> and reads
  \<^verbatim>\<open>length\<close> on it, which a string (the client's own initial value is \<^verbatim>\<open>""\<close>) and an
  array both have: on a string \<^verbatim>\<open>includes\<close> is the substring test, on an array it is
  membership. An argument \<^verbatim>\<open>undefined\<close> is searched for as the text "undefined" in a
  string and is no element of an array of strings.
\<close>

datatype required = ReqStr string | ReqArr "string list"

fun req_includes :: "required \<Rightarrow> string option \<Rightarrow> bool" where
  "req_includes (ReqStr s) None = str_includes s ''undefined''"
| "req_includes (ReqStr s) (Some f) = str_includes s f"
| "req_includes (ReqArr xs) None = False"
| "req_includes (ReqArr xs) (Some f) = (f \<in> set xs)"

fun req_length :: "required \<Rightarrow> nat" where
  "req_length (ReqStr s) = length s"
| "req_length (ReqArr xs) = length xs"


section \<open>The client, its events and its remote commands\<close>

text \<open>
  The fields of \<^verbatim>\<open>AgentAssistPayClient\<close>, without the leading underscore of the private
  ones. \<^verbatim>\<open>analytics\<close>, \<^verbatim>\<open>syncClient\<close> and \<^verbatim>\<open>payMap\<close> record whether the field holds
  an object; \<^verbatim>\<open>listening\<close> whether the \<^verbatim>\<open>itemUpdated\<close> handler is registered on the pay
  map, \<^verbatim>\<open>uuiListening\<close> whether the \<^verbatim>\<open>itemAdded\<close> handler is registered on the UUI map.
\<close>

record client =
  functionsURL :: string
  identity :: string
  syncToken :: string
  paymentConnector :: string
  captureOrder :: "string list"
  captureOrderTemplate :: "string list"
  currency :: string
  tokenType :: string
  analytics :: bool
  callSid :: "string option"
  statusCallback :: string
  syncClient :: bool
  payMap :: bool
  listening :: bool
  uuiListening :: bool
  paySid :: string
  capture :: js_value
  partialResult :: js_value
  required :: required

text \<open>\<^verbatim>\<open>args.item.data\<close> and \<^verbatim>\<open>args.item\<close> of an \<^verbatim>\<open>itemUpdated\<close> notification.\<close>

record item_data =
  Capture :: js_value
  PartialResult :: js_value
  Required :: required

record item =
  key :: string
  data :: item_data

datatype event =
    CallConnected "string option"
  | UUIItemAdded "string option"
  | CardUpdate item_data
  | Capturing
  | CapturingCard
  | CapturingSecurityCode
  | CapturingDate
  | CaptureComplete
  | CardReset
  | SecurityCodeReset
  | DateReset
  | CancelledCapture
  | SubmitComplete
  | StopCapturing

text \<open>
  The POST bodies, field by field in the order of the source. The idempotency key
  (identity and the clock) is left out.
  \<^item> start capture: callSid, StatusCallback, ChargeAmount, TokenType, Currency,
    PaymentConnector, SecurityCode, PostalCode;
  \<^item> update capture type: callSid, paySid, captureType, StatusCallback;
  \<^item> change session: callSid, paySid, Status, StatusCallback.
\<close>

datatype body =
    StartCaptureBody "string option" string int string string string bool bool
  | UpdateCaptureTypeBody "string option" string "string option" string
  | ChangeSessionBody "string option" string string string

datatype command =
    Post string body
  | MapOpen string
  | MapRemove string
  | MapRemoveAllListeners
  | MapClose

text \<open>What a method does besides changing the client, in the order it does it.\<close>

datatype effect =
    Emit event
  | Remote command
  | Track string
  | LogError string

definition track :: "client \<Rightarrow> string \<Rightarrow> effect list" where
  "track s name = (if analytics s then [Track name] else [])"

text \<open>The capture types of the update-capture-type requests among the effects, in order.\<close>

fun setActiveField_calls :: "effect list \<Rightarrow> string option list" where
  "setActiveField_calls [] = []"
| "setActiveField_calls (Remote (Post url (UpdateCaptureTypeBody c p ct cb)) # es) =
     ct # setActiveField_calls es"
| "setActiveField_calls (e # es) = setActiveField_calls es"

fun events :: "effect list \<Rightarrow> event list" where
  "events [] = []"
| "events (Emit e # es) = e # events es"
| "events (x # es) = events es"

fun commands :: "effect list \<Rightarrow> command list" where
  "commands [] = []"
| "commands (Remote c # es) = c # commands es"
| "commands (x # es) = commands es"


section \<open>The constructor\<close>

text \<open>
  An argument \<^verbatim>\<open>undefined\<close> takes the parameter's default. \<^verbatim>\<open>captureOrder.split\<close> raises a
  TypeError on every value that is not a string, before any later field is assigned.
\<close>

definition constructor ::
  "string \<Rightarrow> string \<Rightarrow> string \<Rightarrow> string \<Rightarrow> js_value \<Rightarrow> string option \<Rightarrow> string option \<Rightarrow>
   string option \<Rightarrow> error + client" where
  "constructor functionsURL' identity' syncToken' paymentConnector' captureOrder' currency'
     tokenType' writeKey' =
     (let co = (case captureOrder' of
                  JUndefined \<Rightarrow> JArr [JStr ''payment-card-number, security-code, expiration-date'']
                | v \<Rightarrow> v)
      in case co of
           JStr str \<Rightarrow>
             Inr \<lparr> functionsURL = functionsURL',
                   identity = identity',
                   syncToken = syncToken',
                   paymentConnector = paymentConnector',
                   captureOrder = map trim (split CHR '','' str),
                   captureOrderTemplate = map trim (split CHR '','' str),
                   currency = (case currency' of None \<Rightarrow> ''USD'' | Some c \<Rightarrow> c),
                   tokenType = (case tokenType' of None \<Rightarrow> ''reusable'' | Some t \<Rightarrow> t),
                   analytics = (case writeKey' of None \<Rightarrow> False | Some k \<Rightarrow> k \<noteq> []),
                   callSid = None,
                   statusCallback = [],
                   syncClient = False,
                   payMap = False,
                   listening = False,
                   uuiListening = False,
                   paySid = [],
                   capture = JStr [],
                   partialResult = JBool True,
                   required = ReqStr [] \<rparr>
         | JNull \<Rightarrow> Inl (TypeError ''Cannot read properties of null'')
         | v \<Rightarrow> Inl (TypeError ''captureOrder.split is not a function''))"


section \<open>The methods\<close>

text \<open>
  Every method runs to its end before the next one starts: an awaited request is given
  with its outcome, and the continuation after it runs at once.
\<close>

definition capturing_event :: "string option \<Rightarrow> effect list" where
  "capturing_event captureType =
     (if captureType = Some ''payment-card-number'' then [Emit CapturingCard]
      else if captureType = Some ''security-code'' then [Emit CapturingSecurityCode]
      else if captureType = Some ''expiration-date'' then [Emit CapturingDate]
      else [])"

definition updateCaptureType ::
  "unit outcome \<Rightarrow> string option \<Rightarrow> client \<Rightarrow> client \<times> effect list" where
  "updateCaptureType upd captureType s =
     (s, Remote (Post (functionsURL s @ ''/updateCaptureType'')
                   (UpdateCaptureTypeBody (callSid s) (paySid s) captureType (statusCallback s)))
         # (case upd of
              Resolved r \<Rightarrow> capturing_event captureType @ track s ''_updateCaptureType''
            | Rejected \<Rightarrow> [LogError ''Could not update CaptureType'']))"

definition checkPayProgress :: "unit outcome \<Rightarrow> client \<Rightarrow> client \<times> effect list" where
  "checkPayProgress upd s =
     (if truthy (capture s) then
        (if req_includes (required s) (front (captureOrder s)) then (s, [])
         else if 0 < req_length (required s) then
           (let s1 = s\<lparr>captureOrder := shift (captureOrder s)\<rparr>
            in updateCaptureType upd (front (captureOrder s1)) s1)
         else (s, [Emit CaptureComplete]))
      else (s, []))"

text \<open>The handler of \<^verbatim>\<open>itemUpdated\<close> that \<^verbatim>\<open>attachPay\<close> registers.\<close>

definition itemUpdated :: "unit outcome \<Rightarrow> item \<Rightarrow> client \<Rightarrow> client \<times> effect list" where
  "itemUpdated upd it s =
     (let s1 = s\<lparr>paySid := key it,
                 capture := Capture (data it),
                 partialResult := PartialResult (data it),
                 required := Required (data it)\<rparr>;
          (s2, effs) = checkPayProgress upd s1
      in (s2, Emit (CardUpdate (data it)) # effs))"

text \<open>The handler of \<^verbatim>\<open>itemAdded\<close> on the UUI map.\<close>

definition uuiItemAdded :: "string option \<Rightarrow> client \<Rightarrow> client \<times> effect list" where
  "uuiItemAdded pstnSid s = (s\<lparr>callSid := pstnSid\<rparr>, [Emit (UUIItemAdded pstnSid)])"

definition callSid_truthy :: "string option \<Rightarrow> bool" where
  "callSid_truthy c = (case c of None \<Rightarrow> False | Some x \<Rightarrow> x \<noteq> [])"

text \<open>
  \<^verbatim>\<open>attachPay\<close>: the sum is the promise it returns, Inl when it rejects. Everything that
  can raise is inside the try block, whose handler logs and returns. The two outcomes are
  those of opening the pay map and the UUI map; creating the Sync client itself is taken
  to succeed.
\<close>

definition attachPay ::
  "string option \<Rightarrow> unit outcome \<Rightarrow> unit outcome \<Rightarrow> client \<Rightarrow> error + client \<times> effect list" where
  "attachPay callSid' payMap_open uuiMap_open s =
     (let s1 = s\<lparr>callSid := callSid', statusCallback := functionsURL s @ ''/paySyncUpdate''\<rparr>;
          effs1 = track s1 ''attachPay'';
          s2 = s1\<lparr>syncClient := True\<rparr>
      in case payMap_open of
           Rejected \<Rightarrow>
             Inr (s2, effs1 @ [Remote (MapOpen ''payMap''), LogError ''Could not Initialize''])
         | Resolved r \<Rightarrow>
             (let s3 = s2\<lparr>payMap := True\<rparr>
              in if callSid_truthy (callSid s3) then
                   Inr (s3\<lparr>listening := True\<rparr>,
                        effs1 @ [Remote (MapOpen ''payMap''), Emit (CallConnected (callSid s3))])
                 else (case uuiMap_open of
                         Rejected \<Rightarrow>
                           Inr (s3, effs1 @ [Remote (MapOpen ''payMap''), Remote (MapOpen ''uuiMap''),
                                             LogError ''Could not Initialize''])
                       | Resolved r' \<Rightarrow>
                           Inr (s3\<lparr>uuiListening := True, listening := True\<rparr>,
                                effs1 @ [Remote (MapOpen ''payMap''), Remote (MapOpen ''uuiMap'')]))))"

definition changeSession :: "unit outcome \<Rightarrow> string \<Rightarrow> client \<Rightarrow> client \<times> effect list" where
  "changeSession chg changeType s =
     (let s1 = s\<lparr>captureOrder := captureOrderTemplate s\<rparr>
      in (s1, Remote (Post (functionsURL s1 @ ''/changeSession'')
                        (ChangeSessionBody (callSid s1) (paySid s1) changeType (statusCallback s1)))
              # (case chg of
                   Resolved r \<Rightarrow> []
                 | Rejected \<Rightarrow> [LogError ''Could not change Session Status''])))"

definition startCapture ::
  "string outcome \<Rightarrow> unit outcome \<Rightarrow> client \<Rightarrow> client \<times> effect list" where
  "startCapture start upd s =
     (let s1 = s\<lparr>captureOrder := captureOrderTemplate s\<rparr>;
          post = Remote (Post (functionsURL s1 @ ''/startCapture'')
                   (StartCaptureBody (callSid s1) (statusCallback s1) 0 (tokenType s1) (currency s1)
                      (paymentConnector s1)
                      (''security-code'' \<in> set (captureOrder s1))
                      (''postal-code'' \<in> set (captureOrder s1))))
      in case start of
           Rejected \<Rightarrow> (s1, [post, LogError ''Error with Capture Token''])
         | Resolved response_data \<Rightarrow>
             (let s2 = s1\<lparr>paySid := response_data\<rparr>;
                  (s3, effs) = updateCaptureType upd (front (captureOrder s2)) s2
              in (s3, [post, Emit Capturing] @ effs @ track s3 ''startCapture'')))"

definition updateCallSid :: "string option \<Rightarrow> client \<Rightarrow> client \<times> effect list" where
  "updateCallSid callSid' s = (s\<lparr>callSid := callSid'\<rparr>, [Emit (CallConnected callSid')])"

definition resetCard :: "unit outcome \<Rightarrow> client \<Rightarrow> client \<times> effect list" where
  "resetCard upd s =
     (let (s1, effs1) =
            (if front (captureOrder s) = Some ''payment-card-number'' then (s, [])
             else (s\<lparr>captureOrder := unshift ''payment-card-number'' (captureOrder s)\<rparr>,
                   [Emit CardReset]));
          (s2, effs2) = updateCaptureType upd (front (captureOrder s1)) s1
      in (s2, effs1 @ track s1 ''resetCard'' @ effs2))"

definition resetSecurityCode :: "unit outcome \<Rightarrow> client \<Rightarrow> client \<times> effect list" where
  "resetSecurityCode upd s =
     (let (s1, effs1) =
            (if front (captureOrder s) = Some ''security-code'' then (s, [])
             else (s\<lparr>captureOrder := unshift ''security-code'' (captureOrder s)\<rparr>,
                   [Emit SecurityCodeReset]));
          (s2, effs2) = updateCaptureType upd (front (captureOrder s1)) s1
      in (s2, effs1 @ track s1 ''resetSecurityCode'' @ effs2))"

definition resetDate :: "unit outcome \<Rightarrow> client \<Rightarrow> client \<times> effect list" where
  "resetDate upd s =
     (let (s1, effs1) =
            (if front (captureOrder s) = Some ''expiration-date'' then (s, [])
             else (s\<lparr>captureOrder := unshift ''expiration-date'' (captureOrder s)\<rparr>,
                   [Emit DateReset]));
          (s2, effs2) = updateCaptureType upd (front (captureOrder s1)) s1
      in (s2, effs1 @ track s1 ''resetDate'' @ effs2))"

text \<open>
  \<^verbatim>\<open>cancelCapture\<close>: with no pay map (\<^verbatim>\<open>attachPay\<close> has not succeeded) the call of
  \<^verbatim>\<open>remove\<close> raises inside the try block and no request is made.
\<close>

definition cancelCapture ::
  "unit outcome \<Rightarrow> unit outcome \<Rightarrow> client \<Rightarrow> client \<times> effect list" where
  "cancelCapture chg rem s =
     (let (s1, effs1) = changeSession chg ''cancel'' s
      in if payMap s1 then
           (case rem of
              Resolved r \<Rightarrow>
                (s1, effs1 @ [Remote (MapRemove (paySid s1)), Emit CancelledCapture]
                       @ track s1 ''cancelCapture'')
            | Rejected \<Rightarrow>
                (s1, effs1 @ [Remote (MapRemove (paySid s1)),
                              LogError ''Error deleting cancelled payMapItem'']))
         else (s1, effs1 @ [LogError ''Error deleting cancelled payMapItem'']))"

definition submitCapture :: "unit outcome \<Rightarrow> client \<Rightarrow> client \<times> effect list" where
  "submitCapture chg s =
     (let (s1, effs1) = changeSession chg ''complete'' s
      in (s1, effs1 @ [Emit SubmitComplete] @ track s1 ''submitCapture''))"

definition detachPay :: "client \<Rightarrow> client \<times> effect list" where
  "detachPay s =
     (if payMap s then
        (s\<lparr>listening := False\<rparr>,
         [Remote MapRemoveAllListeners, Remote MapClose, Emit StopCapturing] @ track s ''detachPay'')
      else (s, [LogError ''endCapture error'']))"


section \<open>Driving the client through its public interface\<close>

text \<open>
  One input is a call of a public method, with the outcomes of the requests it awaits, or
  a notification of the channel, which reaches the client only while its handler is
  registered. A notification runs the handler once: the runs below attach once, so one
  handler is registered on one pay map.
\<close>

datatype input =
    InAttachPay "string option" "unit outcome" "unit outcome"
  | InStartCapture "string outcome" "unit outcome"
  | InItemUpdated item "unit outcome"
  | InUuiItemAdded "string option"
  | InResetCard "unit outcome"
  | InResetSecurityCode "unit outcome"
  | InResetDate "unit outcome"
  | InCancelCapture "unit outcome" "unit outcome"
  | InSubmitCapture "unit outcome"
  | InUpdateCallSid "string option"
  | InDetachPay

fun step :: "input \<Rightarrow> client \<Rightarrow> client \<times> effect list" where
  "step (InAttachPay c pm uui) s =
     (case attachPay c pm uui s of Inl e \<Rightarrow> (s, []) | Inr r \<Rightarrow> r)"
| "step (InStartCapture start upd) s = startCapture start upd s"
| "step (InItemUpdated it upd) s = (if listening s then itemUpdated upd it s else (s, []))"
| "step (InUuiItemAdded p) s = (if uuiListening s then uuiItemAdded p s else (s, []))"
| "step (InResetCard upd) s = resetCard upd s"
| "step (InResetSecurityCode upd) s = resetSecurityCode upd s"
| "step (InResetDate upd) s = resetDate upd s"
| "step (InCancelCapture chg rem) s = cancelCapture chg rem s"
| "step (InSubmitCapture chg) s = submitCapture chg s"
| "step (InUpdateCallSid c) s = updateCallSid c s"
| "step InDetachPay s = detachPay s"

fun run :: "input list \<Rightarrow> client \<Rightarrow> client \<times> effect list" where
  "run [] s = (s, [])"
| "run (i # ins) s =
     (let (s1, effs1) = step i s; (s2, effs2) = run ins s1 in (s2, effs1 @ effs2))"


section \<open>The capture order\<close>

fun is_suffix :: "'a list \<Rightarrow> 'a list \<Rightarrow> bool" where
  "is_suffix xs [] = (xs = [])"
| "is_suffix xs (y # ys) = (xs = y # ys \<or> is_suffix xs ys)"

text \<open>No field kind twice, and what is left of the template after some advances.\<close>

definition order_inv :: "client \<Rightarrow> bool" where
  "order_inv s = (distinct (captureOrder s) \<and> is_suffix (captureOrder s) (captureOrderTemplate s))"


section \<open>Concrete clients and notifications\<close>

text \<open>
  The client built from the capture order string
  \<^verbatim>\<open>"payment-card-number, security-code, expiration-date"\<close> with no currency, token type or
  write key given.
\<close>

definition demo_client :: client where
  "demo_client =
     \<lparr> functionsURL = ''https://fn.example'',
       identity = ''agent'',
       syncToken = ''token'',
       paymentConnector = ''Default'',
       captureOrder = [''payment-card-number'', ''security-code'', ''expiration-date''],
       captureOrderTemplate = [''payment-card-number'', ''security-code'', ''expiration-date''],
       currency = ''USD'',
       tokenType = ''reusable'',
       analytics = False,
       callSid = None,
       statusCallback = [],
       syncClient = False,
       payMap = False,
       listening = False,
       uuiListening = False,
       paySid = [],
       capture = JStr [],
       partialResult = JBool True,
       required = ReqStr [] \<rparr>"

text \<open>Attached to call CA1, capture started as session PA1: the card number is active.\<close>

definition capturing_card :: client where
  "capturing_card =
     fst (run [InAttachPay (Some ''CA1'') (Resolved ()) (Resolved ()),
               InStartCapture (Resolved ''PA1'') (Resolved ())] demo_client)"

text \<open>Session PA1 reports the card number as captured.\<close>

definition card_done :: item where
  "card_done =
     \<lparr> key = ''PA1'',
       data = \<lparr> Capture = JStr ''payment-card-number'', PartialResult = JBool False,
                Required = ReqArr [''security-code'', ''expiration-date''] \<rparr> \<rparr>"

definition capturing_security_code :: client where
  "capturing_security_code = fst (step (InItemUpdated card_done (Resolved ())) capturing_card)"

text \<open>A notification of another session, PA2.\<close>

definition stale_item :: item where
  "stale_item =
     \<lparr> key = ''PA2'',
       data = \<lparr> Capture = JStr ''security-code'', PartialResult = JBool True,
                Required = ReqArr [''expiration-date''] \<rparr> \<rparr>"

text \<open>A client whose capture order is the card number alone.\<close>

definition card_only_client :: client where
  "card_only_client =
     demo_client\<lparr> captureOrder := [''payment-card-number''],
                  captureOrderTemplate := [''payment-card-number''] \<rparr>"

text \<open>Session PA1 still waits for the card number.\<close>

definition card_pending :: item where
  "card_pending =
     \<lparr> key = ''PA1'',
       data = \<lparr> Capture = JStr ''payment-card-number'', PartialResult = JBool True,
                Required = ReqArr [''payment-card-number'', ''expiration-date''] \<rparr> \<rparr>"

definition capturing_last_field :: client where
  "capturing_last_field =
     fst (run [InAttachPay (Some ''CA1'') (Resolved ()) (Resolved ()),
               InStartCapture (Resolved ''PA1'') (Resolved ()),
               InItemUpdated card_pending (Resolved ())] card_only_client)"

text \<open>Session PA1 has the card number and still requires the expiration date.\<close>

definition date_required :: item where
  "date_required =
     \<lparr> key = ''PA1'',
       data = \<lparr> Capture = JStr ''payment-card-number'', PartialResult = JBool False,
                Required = ReqArr [''expiration-date''] \<rparr> \<rparr>"


text \<open>
  A client whose capture order string is \<^verbatim>\<open>"code, security-code"\<close>, attached and started;
  session PA1 then reports, as a string, that the security code is required.
\<close>

definition code_first_client :: client where
  "code_first_client =
     demo_client\<lparr> captureOrder := [''code'', ''security-code''],
                  captureOrderTemplate := [''code'', ''security-code''] \<rparr>"

definition capturing_code :: client where
  "capturing_code =
     fst (run [InAttachPay (Some ''CA1'') (Resolved ()) (Resolved ()),
               InStartCapture (Resolved ''PA1'') (Resolved ())] code_first_client)"

definition security_code_required :: item where
  "security_code_required =
     \<lparr> key = ''PA1'',
       data = \<lparr> Capture = JStr ''code'', PartialResult = JBool False,
                Required = ReqStr ''security-code'' \<rparr> \<rparr>"

definition capturing_code_notified :: client where
  "capturing_code_notified =
     fst (step (InItemUpdated security_code_required (Resolved ())) capturing_code)"

text \<open>
  A client whose capture order string is empty, so that its one field kind is the empty
  string, attached and started; session PA1 then reports the empty string as required.
\<close>

definition blank_field_client :: client where
  "blank_field_client =
     demo_client\<lparr> captureOrder := [[]], captureOrderTemplate := [[]] \<rparr>"

definition capturing_blank :: client where
  "capturing_blank =
     fst (run [InAttachPay (Some ''CA1'') (Resolved ()) (Resolved ()),
               InStartCapture (Resolved ''PA1'') (Resolved ())] blank_field_client)"

definition nothing_required :: item where
  "nothing_required =
     \<lparr> key = ''PA1'',
       data = \<lparr> Capture = JBool True, PartialResult = JBool False, Required = ReqStr [] \<rparr> \<rparr>"


section \<open>Auxiliary facts\<close>

lemma setActiveField_calls_append:
  "setActiveField_calls (xs @ ys) = setActiveField_calls xs @ setActiveField_calls ys"
  by (induction xs rule: setActiveField_calls.induct) simp_all

lemma events_append: "events (xs @ ys) = events xs @ events ys"
  by (induction xs rule: events.induct) simp_all

lemma commands_append: "commands (xs @ ys) = commands xs @ commands ys"
  by (induction xs rule: commands.induct) simp_all

lemma setActiveField_calls_track [simp]: "setActiveField_calls (track s n) = []"
  by (simp add: track_def)

lemma events_track [simp]: "events (track s n) = []"
  by (simp add: track_def)

lemma commands_track [simp]: "commands (track s n) = []"
  by (simp add: track_def)

lemma setActiveField_calls_capturing_event [simp]:
  "setActiveField_calls (capturing_event ct) = []"
  by (simp add: capturing_event_def)

lemma CaptureComplete_notin_capturing_event [simp]:
  "CaptureComplete \<notin> set (events (capturing_event ct))"
  by (simp add: capturing_event_def)

lemma updateCaptureType_state [simp]: "fst (updateCaptureType upd ct s) = s"
  by (simp add: updateCaptureType_def)

lemma updateCaptureType_calls [simp]:
  "setActiveField_calls (snd (updateCaptureType upd ct s)) = [ct]"
  by (cases upd) (simp_all add: updateCaptureType_def setActiveField_calls_append)

lemma updateCaptureType_events:
  "events (snd (updateCaptureType upd ct s)) =
     (case upd of Resolved r \<Rightarrow> events (capturing_event ct) | Rejected \<Rightarrow> [])"
  by (cases upd) (simp_all add: updateCaptureType_def events_append)

lemma is_suffix_refl [simp]: "is_suffix xs xs"
  by (cases xs) simp_all

lemma is_suffix_shift: "is_suffix xs ys \<Longrightarrow> is_suffix (shift xs) ys"
proof (induction ys)
  case Nil
  then show ?case by (simp add: shift_def)
next
  case (Cons y ys)
  then show ?case by (auto simp: shift_def)
qed

lemma distinct_shift: "distinct xs \<Longrightarrow> distinct (shift xs)"
  by (cases xs) (simp_all add: shift_def)

lemma front_Some_mem: "front xs = Some x \<Longrightarrow> x \<in> set xs"
  by (cases xs) (simp_all add: front_def)

lemma submitCapture_state:
  "fst (submitCapture chg s) = s\<lparr>captureOrder := captureOrderTemplate s\<rparr>"
  by (simp add: submitCapture_def changeSession_def Let_def)

lemma cancelCapture_state:
  "fst (cancelCapture chg rem s) = s\<lparr>captureOrder := captureOrderTemplate s\<rparr>"
  by (cases rem) (simp_all add: cancelCapture_def changeSession_def Let_def)

lemma startCapture_Rejected:
  "startCapture Rejected upd s =
     (s\<lparr>captureOrder := captureOrderTemplate s\<rparr>,
      [Remote (Post (functionsURL s @ ''/startCapture'')
         (StartCaptureBody (callSid s) (statusCallback s) 0 (tokenType s) (currency s)
            (paymentConnector s)
            (''security-code'' \<in> set (captureOrderTemplate s))
            (''postal-code'' \<in> set (captureOrderTemplate s)))),
       LogError ''Error with Capture Token''])"
  by (simp add: startCapture_def Let_def)

lemma startCapture_Resolved_state:
  "fst (startCapture (Resolved sid) upd s) =
     s\<lparr>captureOrder := captureOrderTemplate s, paySid := sid\<rparr>"
  by (simp add: startCapture_def Let_def updateCaptureType_def)

lemma startCapture_Resolved_calls:
  "setActiveField_calls (snd (startCapture (Resolved sid) upd s)) =
     [front (captureOrderTemplate s)]"
  by (cases upd)
     (simp_all add: startCapture_def Let_def updateCaptureType_def setActiveField_calls_append)

lemma checkPayProgress_order:
  "captureOrder (fst (checkPayProgress upd s)) = captureOrder s \<or>
   captureOrder (fst (checkPayProgress upd s)) = shift (captureOrder s)"
  by (simp add: checkPayProgress_def Let_def)

lemma checkPayProgress_template [simp]:
  "captureOrderTemplate (fst (checkPayProgress upd s)) = captureOrderTemplate s"
  by (simp add: checkPayProgress_def Let_def)

lemma checkPayProgress_order_inv: "order_inv s \<Longrightarrow> order_inv (fst (checkPayProgress upd s))"
  using checkPayProgress_order [of upd s]
  by (auto simp: order_inv_def is_suffix_shift distinct_shift)

lemma checkPayProgress_snapshot:
  "paySid (fst (checkPayProgress upd s)) = paySid s \<and>
   capture (fst (checkPayProgress upd s)) = capture s \<and>
   partialResult (fst (checkPayProgress upd s)) = partialResult s \<and>
   required (fst (checkPayProgress upd s)) = required s"
  by (simp add: checkPayProgress_def Let_def)

lemma resetCard_state:
  "fst (resetCard upd s) =
     (if front (captureOrder s) = Some ''payment-card-number'' then s
      else s\<lparr>captureOrder := ''payment-card-number'' # captureOrder s\<rparr>)"
  by (simp add: resetCard_def unshift_def updateCaptureType_def)

lemma resetSecurityCode_state:
  "fst (resetSecurityCode upd s) =
     (if front (captureOrder s) = Some ''security-code'' then s
      else s\<lparr>captureOrder := ''security-code'' # captureOrder s\<rparr>)"
  by (simp add: resetSecurityCode_def unshift_def updateCaptureType_def)

lemma resetDate_state:
  "fst (resetDate upd s) =
     (if front (captureOrder s) = Some ''expiration-date'' then s
      else s\<lparr>captureOrder := ''expiration-date'' # captureOrder s\<rparr>)"
  by (simp add: resetDate_def unshift_def updateCaptureType_def)

text \<open>\<open>starts_with\<close> and \<open>str_includes\<close> are the prefix and the substring test.\<close>

lemma starts_with_iff: "starts_with s p \<longleftrightarrow> (\<exists>q. s = p @ q)"
  by (induction s p rule: starts_with.induct) auto

lemma str_includes_iff: "str_includes s sub \<longleftrightarrow> (\<exists>p q. s = p @ sub @ q)"
proof (induction s)
  case Nil
  then show ?case by simp
next
  case (Cons c cs)
  have "(\<exists>p q. c # cs = p @ sub @ q) \<longleftrightarrow>
        (\<exists>q. c # cs = sub @ q) \<or> (\<exists>p q. cs = p @ sub @ q)"
  proof
    assume "\<exists>p q. c # cs = p @ sub @ q"
    then obtain p q where pq: "c # cs = p @ sub @ q" by blast
    show "(\<exists>q. c # cs = sub @ q) \<or> (\<exists>p q. cs = p @ sub @ q)"
    proof (cases p)
      case Nil
      with pq show ?thesis by auto
    next
      case (Cons a p')
      with pq have "cs = p' @ sub @ q" by simp
      then show ?thesis by blast
    qed
  next
    assume "(\<exists>q. c # cs = sub @ q) \<or> (\<exists>p q. cs = p @ sub @ q)"
    then show "\<exists>p q. c # cs = p @ sub @ q"
    proof
      assume "\<exists>q. c # cs = sub @ q"
      then obtain q where "c # cs = [] @ sub @ q" by auto
      then show ?thesis by blast
    next
      assume "\<exists>p q. cs = p @ sub @ q"
      then obtain p q where "c # cs = (c # p) @ sub @ q" by auto
      then show ?thesis by blast
    qed
  qed
  with Cons show ?case by (simp add: starts_with_iff)
qed

text \<open>The three branches of the progress check, for either shape of the required value.\<close>

lemma checkPayProgress_front:
  assumes "truthy (capture s)" and "captureOrder s = F # rest"
  shows "checkPayProgress upd s =
           (if req_includes (required s) (Some F) then (s, [])
            else if 0 < req_length (required s)
              then updateCaptureType upd (front rest) (s\<lparr>captureOrder := rest\<rparr>)
            else (s, [Emit CaptureComplete]))"
  using assms by (simp add: checkPayProgress_def front_def shift_def)

lemma updateCaptureType_no_CaptureComplete [simp]:
  "CaptureComplete \<notin> set (events (snd (updateCaptureType upd ct s)))"
  by (cases upd) (simp_all add: updateCaptureType_events)

lemma progress_check_outcomes:
  assumes "truthy (capture s)" and "captureOrder s = F # rest"
  shows "((\<not> req_includes (required s) (Some F) \<and> 0 < req_length (required s)) \<longleftrightarrow>
            (fst (checkPayProgress upd s) = s\<lparr>captureOrder := rest\<rparr> \<and>
             setActiveField_calls (snd (checkPayProgress upd s)) = [front rest])) \<and>
         ((\<not> req_includes (required s) (Some F) \<and> req_length (required s) = 0) \<longleftrightarrow>
            CaptureComplete \<in> set (events (snd (checkPayProgress upd s)))) \<and>
         (req_includes (required s) (Some F) \<longrightarrow> checkPayProgress upd s = (s, []))"
  by (simp add: checkPayProgress_front [OF assms])

text \<open>The concrete clients are what the constructor and the public methods produce.\<close>

lemma demo_client_constructed:
  "constructor ''https://fn.example'' ''agent'' ''token'' ''Default''
     (JStr ''payment-card-number, security-code, expiration-date'') None None None
   = Inr demo_client"
  by code_simp

lemma capturing_card_eq:
  "capturing_card =
     demo_client\<lparr>callSid := Some ''CA1'', statusCallback := ''https://fn.example/paySyncUpdate'',
                  syncClient := True, payMap := True, listening := True, paySid := ''PA1''\<rparr>"
  by code_simp

lemma capturing_security_code_eq:
  "capturing_security_code =
     capturing_card\<lparr>captureOrder := [''security-code'', ''expiration-date''],
                     capture := JStr ''payment-card-number'', partialResult := JBool False,
                     required := ReqArr [''security-code'', ''expiration-date'']\<rparr>"
  by code_simp

lemma required_string_is_substring_test:
  "req_includes (ReqStr ''payment-card-number, expiration-date'') (Some ''expiration-date'') \<and>
   \<not> req_includes (ReqStr ''payment-card-number, expiration-date'') (Some ''security-code'')"
  by code_simp


section \<open>Stale-session notifications\<close>

text \<open>
  Claim C1 says that a notification whose session key differs from the client's current
  session id is discarded: the snapshot fields stay as they were, no event is emitted
  and no transition or remote command results.

  The handler compares no session ids. The client \<open>capturing_card\<close> is in session PA1
  with the card number active; the notification \<open>stale_item\<close> of session PA2 replaces the
  stored session id and the snapshot, emits \<open>cardUpdate\<close>, advances the order and issues
  an update-capture-type request.
\<close>

theorem stale_notification_applied:
  "listening capturing_card \<and>
   key stale_item \<noteq> paySid capturing_card \<and>
   step (InItemUpdated stale_item (Resolved ())) capturing_card \<noteq> (capturing_card, []) \<and>
   paySid capturing_card = ''PA1'' \<and>
   paySid (fst (step (InItemUpdated stale_item (Resolved ())) capturing_card)) = ''PA2'' \<and>
   required capturing_card = ReqStr [] \<and>
   required (fst (step (InItemUpdated stale_item (Resolved ())) capturing_card)) =
     ReqArr [''expiration-date''] \<and>
   captureOrder capturing_card = [''payment-card-number'', ''security-code'', ''expiration-date''] \<and>
   captureOrder (fst (step (InItemUpdated stale_item (Resolved ())) capturing_card)) =
     [''security-code'', ''expiration-date''] \<and>
   events (snd (step (InItemUpdated stale_item (Resolved ())) capturing_card)) =
     [CardUpdate (data stale_item), CapturingSecurityCode] \<and>
   setActiveField_calls (snd (step (InItemUpdated stale_item (Resolved ())) capturing_card)) =
     [Some ''security-code'']"
  by code_simp

text \<open>
  Claim C1, amended: every notification delivered to the handler is applied, whatever its
  session key. The stored session id becomes the notification's key, the capture flag,
  the partial result and the required set become the notification's, \<open>cardUpdate\<close> is
  emitted with the notification's data, and the progress check runs on the new snapshot.
\<close>

theorem itemUpdated_applies_every_notification:
  "paySid (fst (itemUpdated upd n s)) = key n \<and>
   capture (fst (itemUpdated upd n s)) = Capture (data n) \<and>
   partialResult (fst (itemUpdated upd n s)) = PartialResult (data n) \<and>
   required (fst (itemUpdated upd n s)) = Required (data n) \<and>
   fst (itemUpdated upd n s) =
     fst (checkPayProgress upd
            (s\<lparr>paySid := key n, capture := Capture (data n),
               partialResult := PartialResult (data n), required := Required (data n)\<rparr>)) \<and>
   snd (itemUpdated upd n s) =
     Emit (CardUpdate (data n)) #
     snd (checkPayProgress upd
            (s\<lparr>paySid := key n, capture := Capture (data n),
               partialResult := PartialResult (data n), required := Required (data n)\<rparr>))"
  by (simp add: itemUpdated_def Let_def split_beta checkPayProgress_snapshot)


section \<open>Failing remote calls\<close>

text \<open>
  Claim C2 says that when the remote call of a public command raises, the client's
  state, in particular the working capture order and the stored session id, is exactly
  what it was before the command.

  The commands change the working order before they make the request. The client
  \<open>capturing_security_code\<close> has the order security code, expiration date; a failing
  \<open>startCapture\<close>, a failing \<open>submitCapture\<close> and a failing \<open>resetCard\<close> each leave
  another order.
\<close>

theorem failed_request_changes_order:
  "captureOrder capturing_security_code = [''security-code'', ''expiration-date''] \<and>
   fst (startCapture Rejected (Resolved ()) capturing_security_code) \<noteq> capturing_security_code \<and>
   captureOrder (fst (startCapture Rejected (Resolved ()) capturing_security_code)) =
     [''payment-card-number'', ''security-code'', ''expiration-date''] \<and>
   captureOrder (fst (submitCapture Rejected capturing_security_code)) =
     [''payment-card-number'', ''security-code'', ''expiration-date''] \<and>
   captureOrder (fst (resetCard Rejected capturing_security_code)) =
     [''payment-card-number'', ''security-code'', ''expiration-date'']"
  by code_simp

text \<open>
  Claim C2, amended: when the start request of \<open>startCapture\<close>, the request of
  \<open>submitCapture\<close>, either request of \<open>cancelCapture\<close> or the request of a reset method
  raises, the stored session id and every field other than the working capture order
  are what they were before the command. The working order is the template after
  \<open>startCapture\<close>, \<open>submitCapture\<close> and \<open>cancelCapture\<close>, and after a reset method it has
  the method's field put in front unless that field was at the front already. When the
  start request of \<open>startCapture\<close> succeeds and its update-capture-type request raises,
  the new session id is stored and the order is the template.
\<close>

theorem failed_request_state:
  "fst (startCapture Rejected upd s) = s\<lparr>captureOrder := captureOrderTemplate s\<rparr> \<and>
   fst (startCapture (Resolved sid) Rejected s) =
     s\<lparr>captureOrder := captureOrderTemplate s, paySid := sid\<rparr> \<and>
   fst (submitCapture Rejected s) = s\<lparr>captureOrder := captureOrderTemplate s\<rparr> \<and>
   fst (cancelCapture Rejected rem s) = s\<lparr>captureOrder := captureOrderTemplate s\<rparr> \<and>
   fst (cancelCapture chg Rejected s) = s\<lparr>captureOrder := captureOrderTemplate s\<rparr> \<and>
   fst (resetCard Rejected s) =
     (if front (captureOrder s) = Some ''payment-card-number'' then s
      else s\<lparr>captureOrder := ''payment-card-number'' # captureOrder s\<rparr>) \<and>
   fst (resetSecurityCode Rejected s) =
     (if front (captureOrder s) = Some ''security-code'' then s
      else s\<lparr>captureOrder := ''security-code'' # captureOrder s\<rparr>) \<and>
   fst (resetDate Rejected s) =
     (if front (captureOrder s) = Some ''expiration-date'' then s
      else s\<lparr>captureOrder := ''expiration-date'' # captureOrder s\<rparr>)"
  by (simp only: startCapture_Rejected startCapture_Resolved_state submitCapture_state
        cancelCapture_state resetCard_state resetSecurityCode_state resetDate_state fst_conv
        simp_thms)


section \<open>Submitting\<close>

text \<open>
  Claim C3 says that \<open>submitCapture\<close> issues the change-status request with status
  complete, emits \<open>submitComplete\<close> and leaves the working capture order as it was.

  \<open>submitCapture\<close> goes through \<open>changeSession\<close>, which resets the working order to the
  template first: the order security code, expiration date of \<open>capturing_security_code\<close>
  is the full template afterwards.
\<close>

theorem submitCapture_resets_order:
  "captureOrder capturing_security_code = [''security-code'', ''expiration-date''] \<and>
   captureOrder (fst (submitCapture (Resolved ()) capturing_security_code)) =
     [''payment-card-number'', ''security-code'', ''expiration-date'']"
  by code_simp

text \<open>
  Claim C3, amended: in every state and whatever the outcome of the request,
  \<open>submitCapture\<close> issues the change-session request with status complete and no other
  remote command, emits \<open>submitComplete\<close> and no other event, and resets the working
  capture order to the template, changing no other field.
\<close>

theorem submitCapture_effect:
  "commands (snd (submitCapture chg s)) =
     [Post (functionsURL s @ ''/changeSession'')
        (ChangeSessionBody (callSid s) (paySid s) ''complete'' (statusCallback s))] \<and>
   events (snd (submitCapture chg s)) = [SubmitComplete] \<and>
   fst (submitCapture chg s) = s\<lparr>captureOrder := captureOrderTemplate s\<rparr>"
  by (cases chg)
     (simp_all add: submitCapture_def changeSession_def Let_def commands_append events_append)


section \<open>The progress check\<close>

text \<open>
  Claim C4 says that for every active field \<open>F\<close> at the front of the working order and
  every required-fields set \<open>R\<close> delivered while capture is in progress, the progress
  check advances the order if and only if \<open>F\<close> is not in \<open>R\<close> and \<open>R\<close> is not empty, emits
  \<open>captureComplete\<close> if and only if \<open>R\<close> is empty, and otherwise stays on \<open>F\<close>.

  The check calls \<^verbatim>\<open>includes\<close> and reads \<^verbatim>\<open>length\<close> on the delivered value as it is,
  and the value may be a string, as the client's own initial value is; on a string
  \<^verbatim>\<open>includes\<close> is the substring test.
  \<^item> The client built from \<^verbatim>\<open>"code, security-code"\<close> has the field \<open>code\<close> active and is
    told that \<^verbatim>\<open>"security-code"\<close> is required: the one required field is not \<open>code\<close>,
    yet the check stays on \<open>code\<close>, with no change and no request.
  \<^item> The client built from the empty capture order string has the empty field kind
    active and is told that the empty string is required: nothing is required, yet no
    \<open>captureComplete\<close> is emitted.
\<close>

theorem substring_required_holds_field:
  "constructor ''https://fn.example'' ''agent'' ''token'' ''Default''
     (JStr ''code, security-code'') None None None = Inr code_first_client \<and>
   listening capturing_code \<and>
   captureOrder capturing_code = [''code'', ''security-code''] \<and>
   truthy (Capture (data security_code_required)) \<and>
   Required (data security_code_required) = ReqStr ''security-code'' \<and>
   map trim (split CHR '','' ''security-code'') = [''security-code''] \<and>
   ''code'' \<noteq> ''security-code'' \<and>
   captureOrder (fst (step (InItemUpdated security_code_required (Resolved ())) capturing_code)) =
     [''code'', ''security-code''] \<and>
   setActiveField_calls
     (snd (step (InItemUpdated security_code_required (Resolved ())) capturing_code)) = [] \<and>
   events (snd (step (InItemUpdated security_code_required (Resolved ())) capturing_code)) =
     [CardUpdate (data security_code_required)] \<and>
   constructor ''https://fn.example'' ''agent'' ''token'' ''Default''
     (JStr []) None None None = Inr blank_field_client \<and>
   listening capturing_blank \<and>
   captureOrder capturing_blank = [[]] \<and>
   truthy (Capture (data nothing_required)) \<and>
   req_length (Required (data nothing_required)) = 0 \<and>
   captureOrder (fst (step (InItemUpdated nothing_required (Resolved ())) capturing_blank)) =
     [[]] \<and>
   events (snd (step (InItemUpdated nothing_required (Resolved ())) capturing_blank)) =
     [CardUpdate (data nothing_required)]"
  by code_simp

text \<open>
  Claim C4, amended: for every active field \<open>F\<close> at the front of the working order and
  every required value \<open>R\<close> delivered while capture is in progress,
  \<^item> when \<open>R\<close> is an array of field kinds, the progress check advances the order (removes
    \<open>F\<close> and issues the update-capture-type request for the new front) if and only if
    \<open>F\<close> is not in \<open>R\<close> and \<open>R\<close> is not empty; it emits \<open>captureComplete\<close> if and only if
    \<open>R\<close> is empty; otherwise it stays on \<open>F\<close>, changing nothing and issuing no command;
  \<^item> when \<open>R\<close> is a string, it advances if and only if \<open>F\<close> does not occur in \<open>R\<close> as a
    substring and \<open>R\<close> is not the empty string; it emits \<open>captureComplete\<close> if and only
    if \<open>R\<close> is the empty string and \<open>F\<close> is not; otherwise (\<open>F\<close> occurs in \<open>R\<close>) it stays
    on \<open>F\<close>, changing nothing and issuing no command.
\<close>

theorem progress_check_determinism:
  assumes "truthy (capture s)"
    and "captureOrder s = F # rest"
  shows "(required s = ReqArr R \<longrightarrow>
            ((F \<notin> set R \<and> R \<noteq> []) \<longleftrightarrow>
               (fst (checkPayProgress upd s) = s\<lparr>captureOrder := rest\<rparr> \<and>
                setActiveField_calls (snd (checkPayProgress upd s)) = [front rest])) \<and>
            (R = [] \<longleftrightarrow> CaptureComplete \<in> set (events (snd (checkPayProgress upd s)))) \<and>
            (F \<in> set R \<longrightarrow> checkPayProgress upd s = (s, []))) \<and>
         (required s = ReqStr str \<longrightarrow>
            (((\<nexists>p q. str = p @ F @ q) \<and> str \<noteq> []) \<longleftrightarrow>
               (fst (checkPayProgress upd s) = s\<lparr>captureOrder := rest\<rparr> \<and>
                setActiveField_calls (snd (checkPayProgress upd s)) = [front rest])) \<and>
            ((str = [] \<and> F \<noteq> []) \<longleftrightarrow>
               CaptureComplete \<in> set (events (snd (checkPayProgress upd s)))) \<and>
            ((\<exists>p q. str = p @ F @ q) \<longrightarrow> checkPayProgress upd s = (s, [])))"
proof (intro conjI impI)
  assume arr: "required s = ReqArr R"
  note out = progress_check_outcomes [OF assms, of upd]
  from out arr
  show "(F \<notin> set R \<and> R \<noteq> []) \<longleftrightarrow>
          (fst (checkPayProgress upd s) = s\<lparr>captureOrder := rest\<rparr> \<and>
           setActiveField_calls (snd (checkPayProgress upd s)) = [front rest])"
    by simp
  from out arr
  show "R = [] \<longleftrightarrow> CaptureComplete \<in> set (events (snd (checkPayProgress upd s)))"
    by auto
  assume "F \<in> set R"
  with out arr show "checkPayProgress upd s = (s, [])" by simp
next
  assume str: "required s = ReqStr str"
  note out = progress_check_outcomes [OF assms, of upd]
  from out str
  show "((\<nexists>p q. str = p @ F @ q) \<and> str \<noteq> []) \<longleftrightarrow>
          (fst (checkPayProgress upd s) = s\<lparr>captureOrder := rest\<rparr> \<and>
           setActiveField_calls (snd (checkPayProgress upd s)) = [front rest])"
    by (simp add: str_includes_iff)
  from out str
  show "(str = [] \<and> F \<noteq> []) \<longleftrightarrow>
          CaptureComplete \<in> set (events (snd (checkPayProgress upd s)))"
    by (auto simp: str_includes_iff)
  assume "\<exists>p q. str = p @ F @ q"
  with out str show "checkPayProgress upd s = (s, [])" by (simp add: str_includes_iff)
qed

text \<open>
  The theorem at \<open>capturing_security_code\<close>, where the required value is an array with
  the active security code in it, and at \<open>capturing_code_notified\<close>, where it is the
  string \<^verbatim>\<open>"security-code"\<close> and the active field is \<open>code\<close>: the check holds in both.
\<close>

theorem progress_check_determinism_witness:
  "truthy (capture capturing_security_code) \<and>
   captureOrder capturing_security_code = [''security-code'', ''expiration-date''] \<and>
   required capturing_security_code = ReqArr [''security-code'', ''expiration-date''] \<and>
   checkPayProgress (Resolved ()) capturing_security_code = (capturing_security_code, []) \<and>
   truthy (capture capturing_code_notified) \<and>
   captureOrder capturing_code_notified = [''code'', ''security-code''] \<and>
   required capturing_code_notified = ReqStr ''security-code'' \<and>
   checkPayProgress (Resolved ()) capturing_code_notified = (capturing_code_notified, [])"
proof -
  have h1: "truthy (capture capturing_security_code)" by code_simp
  have h2: "captureOrder capturing_security_code = ''security-code'' # [''expiration-date'']"
    by code_simp
  have h3: "required capturing_security_code = ReqArr [''security-code'', ''expiration-date'']"
    by code_simp
  have g1: "truthy (capture capturing_code_notified)" by code_simp
  have g2: "captureOrder capturing_code_notified = ''code'' # [''security-code'']"
    by code_simp
  have g3: "required capturing_code_notified = ReqStr ''security-code''" by code_simp
  have g4: "''security-code'' = ''security-'' @ ''code'' @ []" by simp
  have a: "checkPayProgress (Resolved ()) capturing_security_code = (capturing_security_code, [])"
    using h3
      progress_check_determinism
        [OF h1 h2, of "[''security-code'', ''expiration-date'']" "Resolved ()"]
    by simp
  have b: "checkPayProgress (Resolved ()) capturing_code_notified = (capturing_code_notified, [])"
    using g3 g4 progress_check_determinism [OF g1 g2, of _ "Resolved ()" "''security-code''"]
    by blast
  from h1 h2 h3 g1 g2 g3 a b show ?thesis by simp
qed


section \<open>The invariant of the working order\<close>

text \<open>
  Claim C5 says that every operation on the working capture order (reset, advance in the
  progress check, prepend in the reset methods) keeps it free of duplicates and a suffix
  of the template, and that prepending a field that is in the order but not at its front
  never gives a duplicate.

  The reset methods compare the field with the front only. After the card number is
  captured the order of \<open>capturing_security_code\<close> is security code, expiration date;
  \<open>resetDate\<close> puts a second expiration date in front.
\<close>

theorem resetDate_duplicates_field:
  "order_inv capturing_security_code \<and>
   captureOrder capturing_security_code = [''security-code'', ''expiration-date''] \<and>
   captureOrder (fst (resetDate (Resolved ()) capturing_security_code)) =
     [''expiration-date'', ''security-code'', ''expiration-date''] \<and>
   \<not> distinct (captureOrder (fst (resetDate (Resolved ()) capturing_security_code))) \<and>
   \<not> order_inv (fst (resetDate (Resolved ()) capturing_security_code))"
  by code_simp

text \<open>
  Claim C5, amended: with a template free of duplicates, the resets (\<open>startCapture\<close>,
  \<open>submitCapture\<close>, \<open>cancelCapture\<close>) and the advance of the progress check keep the working
  order free of duplicates and a suffix of the template. After \<open>resetCard\<close>,
  \<open>resetSecurityCode\<close> or \<open>resetDate\<close> the order is free of duplicates exactly when the
  field was at the front already or was not in the order; a field that is in the order
  but not at its front is in it twice afterwards.
\<close>

theorem capture_order_invariant:
  assumes "distinct (captureOrderTemplate s)" and "order_inv s"
  shows "order_inv (fst (startCapture start upd s)) \<and>
         order_inv (fst (submitCapture chg s)) \<and>
         order_inv (fst (cancelCapture chg rem s)) \<and>
         order_inv (fst (checkPayProgress upd s)) \<and>
         (distinct (captureOrder (fst (resetCard upd s))) \<longleftrightarrow>
            (front (captureOrder s) = Some ''payment-card-number'' \<or>
             ''payment-card-number'' \<notin> set (captureOrder s))) \<and>
         (distinct (captureOrder (fst (resetSecurityCode upd s))) \<longleftrightarrow>
            (front (captureOrder s) = Some ''security-code'' \<or>
             ''security-code'' \<notin> set (captureOrder s))) \<and>
         (distinct (captureOrder (fst (resetDate upd s))) \<longleftrightarrow>
            (front (captureOrder s) = Some ''expiration-date'' \<or>
             ''expiration-date'' \<notin> set (captureOrder s)))"
proof -
  have d: "distinct (captureOrder s)"
    using assms(2) by (simp add: order_inv_def)
  have start: "order_inv (fst (startCapture start upd s))"
    using assms(1)
    by (cases start) (simp_all add: startCapture_Rejected startCapture_Resolved_state order_inv_def)
  have submit: "order_inv (fst (submitCapture chg s))"
    using assms(1) by (simp add: submitCapture_state order_inv_def)
  have cancel: "order_inv (fst (cancelCapture chg rem s))"
    using assms(1) by (simp add: cancelCapture_state order_inv_def)
  have advance: "order_inv (fst (checkPayProgress upd s))"
    using assms(2) by (rule checkPayProgress_order_inv)
  have card: "distinct (captureOrder (fst (resetCard upd s))) \<longleftrightarrow>
      (front (captureOrder s) = Some ''payment-card-number'' \<or>
       ''payment-card-number'' \<notin> set (captureOrder s))"
    using d by (auto simp: resetCard_state dest: front_Some_mem)
  have code: "distinct (captureOrder (fst (resetSecurityCode upd s))) \<longleftrightarrow>
      (front (captureOrder s) = Some ''security-code'' \<or>
       ''security-code'' \<notin> set (captureOrder s))"
    using d by (auto simp: resetSecurityCode_state dest: front_Some_mem)
  have date: "distinct (captureOrder (fst (resetDate upd s))) \<longleftrightarrow>
      (front (captureOrder s) = Some ''expiration-date'' \<or>
       ''expiration-date'' \<notin> set (captureOrder s))"
    using d by (auto simp: resetDate_state dest: front_Some_mem)
  from start submit cancel advance card code date show ?thesis by blast
qed

text \<open>
  The theorem at \<open>capturing_security_code\<close>: the advance and the reset keep the invariant,
  \<open>resetCard\<close> (card number absent) keeps the order free of duplicates and \<open>resetDate\<close>
  (expiration date present, not at the front) does not.
\<close>

theorem capture_order_invariant_witness:
  "distinct (captureOrderTemplate capturing_security_code) \<and>
   order_inv capturing_security_code \<and>
   order_inv (fst (checkPayProgress (Resolved ()) capturing_security_code)) \<and>
   order_inv (fst (startCapture (Resolved ''PA3'') (Resolved ()) capturing_security_code)) \<and>
   distinct (captureOrder (fst (resetCard (Resolved ()) capturing_security_code))) \<and>
   \<not> distinct (captureOrder (fst (resetDate (Resolved ()) capturing_security_code)))"
proof -
  have h1: "distinct (captureOrderTemplate capturing_security_code)" by code_simp
  have h2: "order_inv capturing_security_code" by code_simp
  have h3: "front (captureOrder capturing_security_code) \<noteq> Some ''payment-card-number''"
    by code_simp
  have h4: "''payment-card-number'' \<notin> set (captureOrder capturing_security_code)" by code_simp
  have h5: "front (captureOrder capturing_security_code) \<noteq> Some ''expiration-date''"
    by code_simp
  have h6: "''expiration-date'' \<in> set (captureOrder capturing_security_code)" by code_simp
  show ?thesis
    using h1 h2 h3 h4 h5 h6
      capture_order_invariant [OF h1 h2, of "Resolved ''PA3''" "Resolved ()" "Resolved ()"
        "Resolved ()"]
    by simp
qed


section \<open>Starting a capture\<close>

text \<open>
  Claim C6 says that for every template \<open>T\<close> that is not empty and has no duplicates,
  \<open>startCapture\<close> leaves the working order equal to \<open>T\<close> and issues exactly one
  update-capture-type request, for the first element of \<open>T\<close>.

  When the start request is rejected the handler of the try block is entered before the
  update-capture-type request: none is issued.
\<close>

theorem failed_startCapture_sets_no_field:
  "captureOrderTemplate capturing_security_code =
     [''payment-card-number'', ''security-code'', ''expiration-date''] \<and>
   setActiveField_calls (snd (startCapture Rejected (Resolved ()) capturing_security_code)) = []"
  by code_simp

text \<open>
  Claim C6, amended: for every template \<open>T\<close> that is not empty and has no duplicates,
  \<open>startCapture\<close> leaves the working order equal to \<open>T\<close>, and when the start request
  succeeds it issues exactly one update-capture-type request, for the first element of
  \<open>T\<close>; when the start request is rejected it issues none.
\<close>

theorem startCapture_resets_and_activates:
  assumes "captureOrderTemplate s = f # rest" and "distinct (f # rest)"
  shows "captureOrder (fst (startCapture (Resolved sid) upd s)) = f # rest \<and>
         setActiveField_calls (snd (startCapture (Resolved sid) upd s)) = [Some f] \<and>
         captureOrder (fst (startCapture Rejected upd s)) = f # rest \<and>
         setActiveField_calls (snd (startCapture Rejected upd s)) = []"
  using assms(1)
  by (simp add: startCapture_Resolved_state startCapture_Resolved_calls startCapture_Rejected
        front_def)

theorem startCapture_resets_and_activates_witness:
  "captureOrderTemplate capturing_security_code =
     [''payment-card-number'', ''security-code'', ''expiration-date''] \<and>
   distinct [''payment-card-number'', ''security-code'', ''expiration-date''] \<and>
   captureOrder (fst (startCapture (Resolved ''PA3'') (Resolved ()) capturing_security_code)) =
     [''payment-card-number'', ''security-code'', ''expiration-date''] \<and>
   setActiveField_calls
     (snd (startCapture (Resolved ''PA3'') (Resolved ()) capturing_security_code)) =
     [Some ''payment-card-number'']"
proof -
  have h1: "captureOrderTemplate capturing_security_code =
      ''payment-card-number'' # [''security-code'', ''expiration-date'']" by code_simp
  have h2: "distinct (''payment-card-number'' # [''security-code'', ''expiration-date''])"
    by code_simp
  show ?thesis
    using h1 h2 startCapture_resets_and_activates [OF h1 h2, of "''PA3''" "Resolved ()"] by simp
qed


section \<open>Resetting the active field\<close>

text \<open>
  Claim C7: \<open>resetCard\<close> with the card number already at the front of the working order
  changes no state and emits no \<open>cardReset\<close> event, and still issues the
  update-capture-type request for the card number.
\<close>

theorem resetCard_idempotent:
  assumes "front (captureOrder s) = Some ''payment-card-number''"
  shows "fst (resetCard upd s) = s \<and>
         CardReset \<notin> set (events (snd (resetCard upd s))) \<and>
         setActiveField_calls (snd (resetCard upd s)) = [Some ''payment-card-number'']"
  using assms
  by (cases upd)
     (simp_all add: resetCard_def updateCaptureType_def setActiveField_calls_append
        events_append capturing_event_def)

theorem resetCard_idempotent_witness:
  "front (captureOrder capturing_card) = Some ''payment-card-number'' \<and>
   fst (resetCard (Resolved ()) capturing_card) = capturing_card \<and>
   CardReset \<notin> set (events (snd (resetCard (Resolved ()) capturing_card))) \<and>
   setActiveField_calls (snd (resetCard (Resolved ()) capturing_card)) =
     [Some ''payment-card-number'']"
proof -
  have h: "front (captureOrder capturing_card) = Some ''payment-card-number''" by code_simp
  show ?thesis
    using h resetCard_idempotent [OF h, of "Resolved ()"] by simp
qed


section \<open>Attaching\<close>




section \<open>The front of an empty order\<close>

text \<open>
  Claim C9: there is a reachable state, with capture in progress and one field left in
  the working order, in which a notification whose required set is not empty and does
  not contain that field makes the progress check remove the last element and issue an
  update-capture-type request whose capture type is the front of the empty order
  (undefined), with no field-specific capturing event.

  The client built from the capture order \<^verbatim>\<open>"payment-card-number"\<close>, attached, started
  and notified that the card number is pending, is \<open>capturing_last_field\<close>; the
  notification \<open>date_required\<close> then requires the expiration date only.
\<close>

theorem last_field_advance_empties_order:
  "constructor ''https://fn.example'' ''agent'' ''token'' ''Default''
     (JStr ''payment-card-number'') None None None = Inr card_only_client \<and>
   fst (run [InAttachPay (Some ''CA1'') (Resolved ()) (Resolved ()),
             InStartCapture (Resolved ''PA1'') (Resolved ()),
             InItemUpdated card_pending (Resolved ())] card_only_client) = capturing_last_field \<and>
   listening capturing_last_field \<and>
   truthy (capture capturing_last_field) \<and>
   captureOrder capturing_last_field = [''payment-card-number''] \<and>
   0 < req_length (Required (data date_required)) \<and>
   \<not> req_includes (Required (data date_required)) (Some ''payment-card-number'') \<and>
   captureOrder (fst (step (InItemUpdated date_required (Resolved ())) capturing_last_field)) = [] \<and>
   setActiveField_calls
     (snd (step (InItemUpdated date_required (Resolved ())) capturing_last_field)) = [None] \<and>
   commands (snd (step (InItemUpdated date_required (Resolved ())) capturing_last_field)) =
     [Post ''https://fn.example/updateCaptureType''
        (UpdateCaptureTypeBody (Some ''CA1'') ''PA1'' None ''https://fn.example/paySyncUpdate'')] \<and>
   events (snd (step (InItemUpdated date_required (Resolved ())) capturing_last_field)) =
     [CardUpdate (data date_required)] \<and>
   events (snd (step (InItemUpdated date_required Rejected) capturing_last_field)) =
     [CardUpdate (data date_required)]"
  by code_simp


section \<open>Constructing a client\<close>

text \<open>
  Claim C10: the constructor derives the template by splitting the capture order on
  commas and trimming each piece, which only a string allows; for every capture order
  that is not a string construction fails with an error before the template is
  initialised. The constructor's own default, a one-element array, is such a value, so a
  client with the default capture order is never constructed.
\<close>

theorem constructor_requires_string:
  assumes "\<not> is_string v"
  shows "(\<exists>e. constructor f i t p v c k w = Inl e) \<and>
         (\<exists>cl. constructor f i t p (JStr str) c k w = Inr cl \<and>
               captureOrderTemplate cl = map trim (split CHR '','' str) \<and>
               captureOrder cl = map trim (split CHR '','' str))"
  using assms by (cases v) (simp_all add: constructor_def)

text \<open>The theorem at the omitted argument, which takes the default.\<close>

theorem constructor_default_fails:
  "\<not> is_string JUndefined \<and>
   (\<exists>e. constructor ''https://fn.example'' ''agent'' ''token'' ''Default'' JUndefined
          None None None = Inl e)"
  using constructor_requires_string
          [of JUndefined "''https://fn.example''" "''agent''" "''token''" "''Default''"
              None None None]
  by simp

end
